theory Spec2Isabelle
  imports Complex_Main
begin

section \<open>The axis actor of vtkAxisActor2D.h\<close>

text \<open>
  The header declares the class \<^verbatim>\<open>vtkAxisActor2D\<close>: its instance variables, the
  setters and getters that the VTK macros generate, and a few member functions with inline
  bodies. The object is a record of its instance variables and every member function takes
  the object and returns it updated.

  C \<^verbatim>\<open>int\<close> is \<^typ>\<open>int\<close>: the functions below only compare and store integers, so no
  arithmetic can wrap around. C \<^verbatim>\<open>float\<close> is \<^typ>\<open>real\<close>: the finite values, with their order
  and without rounding; a NaN is not a value of the model.
  A \<^verbatim>\<open>float[2]\<close> or \<^verbatim>\<open>int[2]\<close> member is a pair, a \<^verbatim>\<open>char *\<close> member is a
  \<^typ>\<open>string option\<close> (\<^term>\<open>None\<close> for the null pointer), and a \<^verbatim>\<open>vtkTimeStamp\<close> is the
  natural number it holds.
\<close>

type_synonym vtkFloat = real
type_synonym float2 = "vtkFloat \<times> vtkFloat"
type_synonym int2 = "int \<times> int"

text \<open>\<^verbatim>\<open>#define VTK_MAX_LABELS 25\<close>\<close>

definition VTK_MAX_LABELS :: int where
  "VTK_MAX_LABELS = 25"

record vtkAxisActor2D =
  Point1 :: float2
  Point2 :: float2
  Title :: "string option"
  Range_val :: float2
  AdjustedRange :: float2
  NumberOfLabels :: int
  AdjustedNumberOfLabels :: int
  LabelFormat :: "string option"
  NumberOfLabelsBuilt :: int
  AdjustLabels :: int
  FontFactor :: vtkFloat
  LabelFactor :: vtkFloat
  TickLength :: int
  TickOffset :: int
  AxisVisibility :: int
  TickVisibility :: int
  LabelVisibility :: int
  TitleVisibility :: int
  LastPoint1 :: int2
  LastPoint2 :: int2
  LastSize :: int2
  LastTitleFontSize :: int
  LastLabelFontSize :: int
  AdjustedRangeBuildTime :: nat
  BuildTime :: nat
  MTime :: nat
  GlobalTime :: nat

text \<open>
  \<^term>\<open>Range_val\<close> is the member \<^verbatim>\<open>Range\<close>. \<^term>\<open>Point1\<close> and \<^term>\<open>Point2\<close> are the values
  held by \<^verbatim>\<open>Point1Coordinate\<close> and \<^verbatim>\<open>Point2Coordinate\<close>. \<^term>\<open>MTime\<close> is the modification
  time inherited from \<^verbatim>\<open>vtkObject\<close>, and \<^term>\<open>GlobalTime\<close> the counter all time stamps draw
  from. The text properties, mappers and actors the object points to are collaborators and
  are left out.
\<close>

subsection \<open>The viewport\<close>

text \<open>
  Modelled from the spec: the class \<^verbatim>\<open>vtkViewport\<close> is only forward-declared in the
  header. The spec (section 6) lists what the axis consumes from it: the transform of a
  logical point to a pixel, the pixel size, and the measure of a string at a font size.
\<close>

record vtkViewport =
  toDeviceCoordinates :: "float2 \<Rightarrow> int2"
  currentPixelSize :: int2
  measure_text :: "string \<Rightarrow> int \<Rightarrow> int2"

subsection \<open>Member functions with a body in the header\<close>

text \<open>\<^verbatim>\<open>int RenderTranslucentGeometry(vtkViewport *) {return 0;}\<close>\<close>

definition RenderTranslucentGeometry ::
  "vtkViewport \<Rightarrow> 'a vtkAxisActor2D_scheme \<Rightarrow> int \<times> 'a vtkAxisActor2D_scheme" where
  "RenderTranslucentGeometry viewport this = (0, this)"

subsection \<open>The set and get macros\<close>

text \<open>
  Modelled from the spec: the macros \<^verbatim>\<open>vtkSetClampMacro\<close> and \<^verbatim>\<open>vtkGetMacro\<close> of
  vtkSetGet.h and the \<^verbatim>\<open>Modified\<close> of vtkObject are not among the sources. The spec says
  of the setters
  that each clamps silently to its documented bound (sections 3, 6 and 7) and that each
  bump of an input field increments a generation counter (section 9). The header gives
  each setter its member, its type and its bounds.
\<close>

definition Modified :: "'a vtkAxisActor2D_scheme \<Rightarrow> 'a vtkAxisActor2D_scheme" where
  "Modified this = this\<lparr>MTime := GlobalTime this + 1, GlobalTime := GlobalTime this + 1\<rparr>"

definition vtkClamp :: "'v::linorder \<Rightarrow> 'v \<Rightarrow> 'v \<Rightarrow> 'v" where
  "vtkClamp arg lo hi = (if arg < lo then lo else if hi < arg then hi else arg)"

text \<open>\<^verbatim>\<open>vtkSetClampMacro(NumberOfLabels, int, 2, VTK_MAX_LABELS)\<close>\<close>

definition SetNumberOfLabels :: "int \<Rightarrow> 'a vtkAxisActor2D_scheme \<Rightarrow> 'a vtkAxisActor2D_scheme" where
  "SetNumberOfLabels arg this =
     (if NumberOfLabels this \<noteq> vtkClamp arg 2 VTK_MAX_LABELS
      then Modified (this\<lparr>NumberOfLabels := vtkClamp arg 2 VTK_MAX_LABELS\<rparr>)
      else this)"

definition GetNumberOfLabels :: "'a vtkAxisActor2D_scheme \<Rightarrow> int" where
  "GetNumberOfLabels this = NumberOfLabels this"

text \<open>\<^verbatim>\<open>vtkSetClampMacro(TickLength, int, 0, 100)\<close>\<close>

definition SetTickLength :: "int \<Rightarrow> 'a vtkAxisActor2D_scheme \<Rightarrow> 'a vtkAxisActor2D_scheme" where
  "SetTickLength arg this =
     (if TickLength this \<noteq> vtkClamp arg 0 100
      then Modified (this\<lparr>TickLength := vtkClamp arg 0 100\<rparr>)
      else this)"

definition GetTickLength :: "'a vtkAxisActor2D_scheme \<Rightarrow> int" where
  "GetTickLength this = TickLength this"

text \<open>\<^verbatim>\<open>vtkSetClampMacro(TickOffset, int, 0, 100)\<close>\<close>

definition SetTickOffset :: "int \<Rightarrow> 'a vtkAxisActor2D_scheme \<Rightarrow> 'a vtkAxisActor2D_scheme" where
  "SetTickOffset arg this =
     (if TickOffset this \<noteq> vtkClamp arg 0 100
      then Modified (this\<lparr>TickOffset := vtkClamp arg 0 100\<rparr>)
      else this)"

definition GetTickOffset :: "'a vtkAxisActor2D_scheme \<Rightarrow> int" where
  "GetTickOffset this = TickOffset this"

text \<open>\<^verbatim>\<open>vtkSetClampMacro(FontFactor, float, 0.1, 2.0)\<close>\<close>

definition SetFontFactor :: "vtkFloat \<Rightarrow> 'a vtkAxisActor2D_scheme \<Rightarrow> 'a vtkAxisActor2D_scheme" where
  "SetFontFactor arg this =
     (if FontFactor this \<noteq> vtkClamp arg (1 / 10) 2
      then Modified (this\<lparr>FontFactor := vtkClamp arg (1 / 10) 2\<rparr>)
      else this)"

definition GetFontFactor :: "'a vtkAxisActor2D_scheme \<Rightarrow> vtkFloat" where
  "GetFontFactor this = FontFactor this"

text \<open>\<^verbatim>\<open>vtkSetClampMacro(LabelFactor, float, 0.1, 2.0)\<close>\<close>

definition SetLabelFactor :: "vtkFloat \<Rightarrow> 'a vtkAxisActor2D_scheme \<Rightarrow> 'a vtkAxisActor2D_scheme" where
  "SetLabelFactor arg this =
     (if LabelFactor this \<noteq> vtkClamp arg (1 / 10) 2
      then Modified (this\<lparr>LabelFactor := vtkClamp arg (1 / 10) 2\<rparr>)
      else this)"

definition GetLabelFactor :: "'a vtkAxisActor2D_scheme \<Rightarrow> vtkFloat" where
  "GetLabelFactor this = LabelFactor this"

text \<open>
  The documented bounds of the five clamped members, as one predicate on the object.
\<close>

definition within_bounds :: "'a vtkAxisActor2D_scheme \<Rightarrow> bool" where
  "within_bounds this \<longleftrightarrow>
     2 \<le> NumberOfLabels this \<and> NumberOfLabels this \<le> VTK_MAX_LABELS \<and>
     0 \<le> TickLength this \<and> TickLength this \<le> 100 \<and>
     0 \<le> TickOffset this \<and> TickOffset this \<le> 100 \<and>
     1 / 10 \<le> FontFactor this \<and> FontFactor this \<le> 2 \<and>
     1 / 10 \<le> LabelFactor this \<and> LabelFactor this \<le> 2"

text \<open>An object to evaluate the functions on.\<close>

definition example_axis :: vtkAxisActor2D where
  "example_axis =
     \<lparr>Point1 = (0, 0), Point2 = (3 / 4, 0), Title = Some ''X'',
      Range_val = (0, 1), AdjustedRange = (0, 1),
      NumberOfLabels = 5, AdjustedNumberOfLabels = 5,
      LabelFormat = Some ''%-#6.3g'', NumberOfLabelsBuilt = 0, AdjustLabels = 1,
      FontFactor = 1, LabelFactor = 3 / 4, TickLength = 5, TickOffset = 2,
      AxisVisibility = 1, TickVisibility = 1, LabelVisibility = 1, TitleVisibility = 1,
      LastPoint1 = (0, 0), LastPoint2 = (0, 0), LastSize = (0, 0),
      LastTitleFontSize = 0, LastLabelFontSize = 0,
      AdjustedRangeBuildTime = 0, BuildTime = 0, MTime = 1, GlobalTime = 1\<rparr>"

section \<open>Properties\<close>

subsection \<open>The clamped setters\<close>

lemma vtkClamp_max_min: "lo \<le> hi \<Longrightarrow> vtkClamp arg lo hi = max lo (min hi arg)"
  by (auto simp: vtkClamp_def max_def min_def)

lemma clamp_bounds: "lo \<le> hi \<Longrightarrow> lo \<le> max lo (min hi arg) \<and> max lo (min hi arg) \<le> (hi::'a::linorder)"
  by (auto simp: max_def min_def)

lemma SetNumberOfLabels_effect:
  "(SetNumberOfLabels n this)\<lparr>MTime := t, GlobalTime := g\<rparr> =
     this\<lparr>NumberOfLabels := max 2 (min 25 n), MTime := t, GlobalTime := g\<rparr>"
proof (cases "NumberOfLabels this = vtkClamp n 2 VTK_MAX_LABELS")
  case True
  then have "this\<lparr>NumberOfLabels := vtkClamp n 2 VTK_MAX_LABELS\<rparr> = this"
    by simp
  with True show ?thesis
    by (simp add: SetNumberOfLabels_def VTK_MAX_LABELS_def vtkClamp_max_min)
next
  case False
  then show ?thesis
    by (simp add: SetNumberOfLabels_def Modified_def VTK_MAX_LABELS_def vtkClamp_max_min)
qed

lemma SetNumberOfLabels_stored: "GetNumberOfLabels (SetNumberOfLabels n this) = max 2 (min 25 n)"
proof -
  have "NumberOfLabels ((SetNumberOfLabels n this)\<lparr>MTime := 0, GlobalTime := 0\<rparr>) = max 2 (min 25 n)"
    by (simp only: SetNumberOfLabels_effect) simp
  then show ?thesis
    by (simp add: GetNumberOfLabels_def)
qed

lemma SetNumberOfLabels_within:
  assumes "within_bounds this"
  shows "within_bounds (SetNumberOfLabels n this)"
proof -
  have "within_bounds (this\<lparr>NumberOfLabels := max 2 (min 25 n), MTime := 0, GlobalTime := 0\<rparr>)"
    using assms clamp_bounds [of "2" "25" n] by (simp add: within_bounds_def VTK_MAX_LABELS_def)
  then have "within_bounds ((SetNumberOfLabels n this)\<lparr>MTime := 0, GlobalTime := 0\<rparr>)"
    by (simp only: SetNumberOfLabels_effect)
  then show ?thesis
    by (simp add: within_bounds_def)
qed

lemma SetTickLength_effect:
  "(SetTickLength l this)\<lparr>MTime := t, GlobalTime := g\<rparr> =
     this\<lparr>TickLength := max 0 (min 100 l), MTime := t, GlobalTime := g\<rparr>"
proof (cases "TickLength this = vtkClamp l 0 100")
  case True
  then have "this\<lparr>TickLength := vtkClamp l 0 100\<rparr> = this"
    by simp
  with True show ?thesis
    by (simp add: SetTickLength_def vtkClamp_max_min)
next
  case False
  then show ?thesis
    by (simp add: SetTickLength_def Modified_def vtkClamp_max_min)
qed

lemma SetTickLength_stored: "GetTickLength (SetTickLength l this) = max 0 (min 100 l)"
proof -
  have "TickLength ((SetTickLength l this)\<lparr>MTime := 0, GlobalTime := 0\<rparr>) = max 0 (min 100 l)"
    by (simp only: SetTickLength_effect) simp
  then show ?thesis
    by (simp add: GetTickLength_def)
qed

lemma SetTickLength_within:
  assumes "within_bounds this"
  shows "within_bounds (SetTickLength l this)"
proof -
  have "within_bounds (this\<lparr>TickLength := max 0 (min 100 l), MTime := 0, GlobalTime := 0\<rparr>)"
    using assms clamp_bounds [of "0" "100" l] by (simp add: within_bounds_def VTK_MAX_LABELS_def)
  then have "within_bounds ((SetTickLength l this)\<lparr>MTime := 0, GlobalTime := 0\<rparr>)"
    by (simp only: SetTickLength_effect)
  then show ?thesis
    by (simp add: within_bounds_def)
qed

lemma SetTickOffset_effect:
  "(SetTickOffset k this)\<lparr>MTime := t, GlobalTime := g\<rparr> =
     this\<lparr>TickOffset := max 0 (min 100 k), MTime := t, GlobalTime := g\<rparr>"
proof (cases "TickOffset this = vtkClamp k 0 100")
  case True
  then have "this\<lparr>TickOffset := vtkClamp k 0 100\<rparr> = this"
    by simp
  with True show ?thesis
    by (simp add: SetTickOffset_def vtkClamp_max_min)
next
  case False
  then show ?thesis
    by (simp add: SetTickOffset_def Modified_def vtkClamp_max_min)
qed

lemma SetTickOffset_stored: "GetTickOffset (SetTickOffset k this) = max 0 (min 100 k)"
proof -
  have "TickOffset ((SetTickOffset k this)\<lparr>MTime := 0, GlobalTime := 0\<rparr>) = max 0 (min 100 k)"
    by (simp only: SetTickOffset_effect) simp
  then show ?thesis
    by (simp add: GetTickOffset_def)
qed

lemma SetTickOffset_within:
  assumes "within_bounds this"
  shows "within_bounds (SetTickOffset k this)"
proof -
  have "within_bounds (this\<lparr>TickOffset := max 0 (min 100 k), MTime := 0, GlobalTime := 0\<rparr>)"
    using assms clamp_bounds [of "0" "100" k] by (simp add: within_bounds_def VTK_MAX_LABELS_def)
  then have "within_bounds ((SetTickOffset k this)\<lparr>MTime := 0, GlobalTime := 0\<rparr>)"
    by (simp only: SetTickOffset_effect)
  then show ?thesis
    by (simp add: within_bounds_def)
qed

lemma SetFontFactor_effect:
  "(SetFontFactor x this)\<lparr>MTime := t, GlobalTime := g\<rparr> =
     this\<lparr>FontFactor := max (1 / 10) (min 2 x), MTime := t, GlobalTime := g\<rparr>"
proof (cases "FontFactor this = vtkClamp x (1 / 10) 2")
  case True
  then have "this\<lparr>FontFactor := vtkClamp x (1 / 10) 2\<rparr> = this"
    by simp
  with True show ?thesis
    by (simp add: SetFontFactor_def vtkClamp_max_min)
next
  case False
  then show ?thesis
    by (simp add: SetFontFactor_def Modified_def vtkClamp_max_min)
qed

lemma SetFontFactor_stored: "GetFontFactor (SetFontFactor x this) = max (1 / 10) (min 2 x)"
proof -
  have "FontFactor ((SetFontFactor x this)\<lparr>MTime := 0, GlobalTime := 0\<rparr>) = max (1 / 10) (min 2 x)"
    by (simp only: SetFontFactor_effect) simp
  then show ?thesis
    by (simp add: GetFontFactor_def)
qed

lemma SetFontFactor_within:
  assumes "within_bounds this"
  shows "within_bounds (SetFontFactor x this)"
proof -
  have "within_bounds (this\<lparr>FontFactor := max (1 / 10) (min 2 x), MTime := 0, GlobalTime := 0\<rparr>)"
    using assms clamp_bounds [of "1 / 10" "2" x] by (simp add: within_bounds_def VTK_MAX_LABELS_def)
  then have "within_bounds ((SetFontFactor x this)\<lparr>MTime := 0, GlobalTime := 0\<rparr>)"
    by (simp only: SetFontFactor_effect)
  then show ?thesis
    by (simp add: within_bounds_def)
qed

lemma SetLabelFactor_effect:
  "(SetLabelFactor y this)\<lparr>MTime := t, GlobalTime := g\<rparr> =
     this\<lparr>LabelFactor := max (1 / 10) (min 2 y), MTime := t, GlobalTime := g\<rparr>"
proof (cases "LabelFactor this = vtkClamp y (1 / 10) 2")
  case True
  then have "this\<lparr>LabelFactor := vtkClamp y (1 / 10) 2\<rparr> = this"
    by simp
  with True show ?thesis
    by (simp add: SetLabelFactor_def vtkClamp_max_min)
next
  case False
  then show ?thesis
    by (simp add: SetLabelFactor_def Modified_def vtkClamp_max_min)
qed

lemma SetLabelFactor_stored: "GetLabelFactor (SetLabelFactor y this) = max (1 / 10) (min 2 y)"
proof -
  have "LabelFactor ((SetLabelFactor y this)\<lparr>MTime := 0, GlobalTime := 0\<rparr>) = max (1 / 10) (min 2 y)"
    by (simp only: SetLabelFactor_effect) simp
  then show ?thesis
    by (simp add: GetLabelFactor_def)
qed

lemma SetLabelFactor_within:
  assumes "within_bounds this"
  shows "within_bounds (SetLabelFactor y this)"
proof -
  have "within_bounds (this\<lparr>LabelFactor := max (1 / 10) (min 2 y), MTime := 0, GlobalTime := 0\<rparr>)"
    using assms clamp_bounds [of "1 / 10" "2" y] by (simp add: within_bounds_def VTK_MAX_LABELS_def)
  then have "within_bounds ((SetLabelFactor y this)\<lparr>MTime := 0, GlobalTime := 0\<rparr>)"
    by (simp only: SetLabelFactor_effect)
  then show ?thesis
    by (simp add: within_bounds_def)
qed

lemma example_within: "within_bounds example_axis"
  by (simp add: within_bounds_def example_axis_def VTK_MAX_LABELS_def)

subsection \<open>The claim settled on the header\<close>

text \<open>
  C10. \<^verbatim>\<open>RenderTranslucentGeometry\<close> returns 0 for every viewport and leaves the object as
  it was, whatever its configuration: the axis has no translucent geometry.
\<close>

theorem RenderTranslucentGeometry_zero:
  "RenderTranslucentGeometry viewport this = (0, this)"
  by (simp add: RenderTranslucentGeometry_def)

subsection \<open>The claim settled on the clamped setters\<close>

text \<open>
  C6. Whatever value a clamped setter is given, it stores that value clamped to the
  documented bound of its member and changes nothing else but the modification time:
  \<^verbatim>\<open>NumberOfLabels\<close> is clamped to 2..25, \<^verbatim>\<open>TickLength\<close> and \<^verbatim>\<open>TickOffset\<close> to 0..100,
  \<^verbatim>\<open>FontFactor\<close> and \<^verbatim>\<open>LabelFactor\<close> to 0.1..2.0. So an argument within the bound is stored
  as it is, one below it is stored as the lower bound and one above it as the upper bound.
  The getter reads the stored value back, which lies within the bound. A setter is a total
  function on the object, so there is no error to raise, and an object whose five members
  are within their bounds stays so under each of the five setters.
\<close>

theorem clamp_setters_store_clamped_argument:
  "((SetNumberOfLabels n this)\<lparr>MTime := t, GlobalTime := g\<rparr> =
      this\<lparr>NumberOfLabels := max 2 (min 25 n), MTime := t, GlobalTime := g\<rparr> \<and>
    GetNumberOfLabels (SetNumberOfLabels n this) = max 2 (min 25 n) \<and>
    2 \<le> GetNumberOfLabels (SetNumberOfLabels n this) \<and> GetNumberOfLabels (SetNumberOfLabels n this) \<le> 25) \<and>
   ((SetTickLength l this)\<lparr>MTime := t, GlobalTime := g\<rparr> =
      this\<lparr>TickLength := max 0 (min 100 l), MTime := t, GlobalTime := g\<rparr> \<and>
    GetTickLength (SetTickLength l this) = max 0 (min 100 l) \<and>
    0 \<le> GetTickLength (SetTickLength l this) \<and> GetTickLength (SetTickLength l this) \<le> 100) \<and>
   ((SetTickOffset k this)\<lparr>MTime := t, GlobalTime := g\<rparr> =
      this\<lparr>TickOffset := max 0 (min 100 k), MTime := t, GlobalTime := g\<rparr> \<and>
    GetTickOffset (SetTickOffset k this) = max 0 (min 100 k) \<and>
    0 \<le> GetTickOffset (SetTickOffset k this) \<and> GetTickOffset (SetTickOffset k this) \<le> 100) \<and>
   ((SetFontFactor x this)\<lparr>MTime := t, GlobalTime := g\<rparr> =
      this\<lparr>FontFactor := max (1 / 10) (min 2 x), MTime := t, GlobalTime := g\<rparr> \<and>
    GetFontFactor (SetFontFactor x this) = max (1 / 10) (min 2 x) \<and>
    1 / 10 \<le> GetFontFactor (SetFontFactor x this) \<and> GetFontFactor (SetFontFactor x this) \<le> 2) \<and>
   ((SetLabelFactor y this)\<lparr>MTime := t, GlobalTime := g\<rparr> =
      this\<lparr>LabelFactor := max (1 / 10) (min 2 y), MTime := t, GlobalTime := g\<rparr> \<and>
    GetLabelFactor (SetLabelFactor y this) = max (1 / 10) (min 2 y) \<and>
    1 / 10 \<le> GetLabelFactor (SetLabelFactor y this) \<and> GetLabelFactor (SetLabelFactor y this) \<le> 2) \<and>
   (within_bounds this \<longrightarrow>
      within_bounds (SetNumberOfLabels n this) \<and> within_bounds (SetTickLength l this) \<and>
      within_bounds (SetTickOffset k this) \<and> within_bounds (SetFontFactor x this) \<and>
      within_bounds (SetLabelFactor y this))"
proof (intro conjI impI)
  show "(SetNumberOfLabels n this)\<lparr>MTime := t, GlobalTime := g\<rparr> =
      this\<lparr>NumberOfLabels := max 2 (min 25 n), MTime := t, GlobalTime := g\<rparr>"
    by (rule SetNumberOfLabels_effect)
  show "GetNumberOfLabels (SetNumberOfLabels n this) = max 2 (min 25 n)"
    by (rule SetNumberOfLabels_stored)
  show "2 \<le> GetNumberOfLabels (SetNumberOfLabels n this)"
    and "GetNumberOfLabels (SetNumberOfLabels n this) \<le> 25"
    using clamp_bounds [of "2" "25" n] by (simp_all add: SetNumberOfLabels_stored)
  show "(SetTickLength l this)\<lparr>MTime := t, GlobalTime := g\<rparr> =
      this\<lparr>TickLength := max 0 (min 100 l), MTime := t, GlobalTime := g\<rparr>"
    by (rule SetTickLength_effect)
  show "GetTickLength (SetTickLength l this) = max 0 (min 100 l)"
    by (rule SetTickLength_stored)
  show "0 \<le> GetTickLength (SetTickLength l this)"
    and "GetTickLength (SetTickLength l this) \<le> 100"
    using clamp_bounds [of "0" "100" l] by (simp_all add: SetTickLength_stored)
  show "(SetTickOffset k this)\<lparr>MTime := t, GlobalTime := g\<rparr> =
      this\<lparr>TickOffset := max 0 (min 100 k), MTime := t, GlobalTime := g\<rparr>"
    by (rule SetTickOffset_effect)
  show "GetTickOffset (SetTickOffset k this) = max 0 (min 100 k)"
    by (rule SetTickOffset_stored)
  show "0 \<le> GetTickOffset (SetTickOffset k this)"
    and "GetTickOffset (SetTickOffset k this) \<le> 100"
    using clamp_bounds [of "0" "100" k] by (simp_all add: SetTickOffset_stored)
  show "(SetFontFactor x this)\<lparr>MTime := t, GlobalTime := g\<rparr> =
      this\<lparr>FontFactor := max (1 / 10) (min 2 x), MTime := t, GlobalTime := g\<rparr>"
    by (rule SetFontFactor_effect)
  show "GetFontFactor (SetFontFactor x this) = max (1 / 10) (min 2 x)"
    by (rule SetFontFactor_stored)
  show "1 / 10 \<le> GetFontFactor (SetFontFactor x this)"
    and "GetFontFactor (SetFontFactor x this) \<le> 2"
    using clamp_bounds [of "1 / 10" "2" x] by (simp_all add: SetFontFactor_stored)
  show "(SetLabelFactor y this)\<lparr>MTime := t, GlobalTime := g\<rparr> =
      this\<lparr>LabelFactor := max (1 / 10) (min 2 y), MTime := t, GlobalTime := g\<rparr>"
    by (rule SetLabelFactor_effect)
  show "GetLabelFactor (SetLabelFactor y this) = max (1 / 10) (min 2 y)"
    by (rule SetLabelFactor_stored)
  show "1 / 10 \<le> GetLabelFactor (SetLabelFactor y this)"
    and "GetLabelFactor (SetLabelFactor y this) \<le> 2"
    using clamp_bounds [of "1 / 10" "2" y] by (simp_all add: SetLabelFactor_stored)
next
  assume "within_bounds this"
  then show "within_bounds (SetNumberOfLabels n this)" by (rule SetNumberOfLabels_within)
next
  assume "within_bounds this"
  then show "within_bounds (SetTickLength l this)" by (rule SetTickLength_within)
next
  assume "within_bounds this"
  then show "within_bounds (SetTickOffset k this)" by (rule SetTickOffset_within)
next
  assume "within_bounds this"
  then show "within_bounds (SetFontFactor x this)" by (rule SetFontFactor_within)
next
  assume "within_bounds this"
  then show "within_bounds (SetLabelFactor y this)" by (rule SetLabelFactor_within)
qed

theorem clamp_setters_store_clamped_argument_witness:
  "within_bounds example_axis \<and>
   GetNumberOfLabels (SetNumberOfLabels 40 example_axis) = 25 \<and>
   GetTickLength (SetTickLength (- 3) example_axis) = 0 \<and>
   GetTickOffset (SetTickOffset 7 example_axis) = 7 \<and>
   GetFontFactor (SetFontFactor 7 example_axis) = 2 \<and>
   GetLabelFactor (SetLabelFactor (1 / 20) example_axis) = 1 / 10 \<and>
   within_bounds (SetNumberOfLabels 40 example_axis) \<and>
   within_bounds (SetTickLength (- 3) example_axis) \<and>
   within_bounds (SetTickOffset 7 example_axis) \<and>
   within_bounds (SetFontFactor 7 example_axis) \<and>
   within_bounds (SetLabelFactor (1 / 20) example_axis)"
proof -
  have w: "within_bounds example_axis"
    by (rule example_within)
  note all = clamp_setters_store_clamped_argument
    [where n = 40 and l = "- 3" and k = 7 and x = 7 and y = "1 / 20" and this = example_axis
      and t = 0 and g = 0]
  from all have "GetNumberOfLabels (SetNumberOfLabels 40 example_axis) = max 2 (min 25 40)"
    and "GetTickLength (SetTickLength (- 3) example_axis) = max 0 (min 100 (- 3))"
    and "GetTickOffset (SetTickOffset 7 example_axis) = max 0 (min 100 7)"
    and "GetFontFactor (SetFontFactor 7 example_axis) = max (1 / 10) (min 2 7)"
    and "GetLabelFactor (SetLabelFactor (1 / 20) example_axis) = max (1 / 10) (min 2 (1 / 20))"
    by blast+
  then have vals: "GetNumberOfLabels (SetNumberOfLabels 40 example_axis) = 25"
    "GetTickLength (SetTickLength (- 3) example_axis) = 0"
    "GetTickOffset (SetTickOffset 7 example_axis) = 7"
    "GetFontFactor (SetFontFactor 7 example_axis) = 2"
    "GetLabelFactor (SetLabelFactor (1 / 20) example_axis) = 1 / 10"
    by simp_all
  from all w have "within_bounds (SetNumberOfLabels 40 example_axis) \<and>
      within_bounds (SetTickLength (- 3) example_axis) \<and>
      within_bounds (SetTickOffset 7 example_axis) \<and>
      within_bounds (SetFontFactor 7 example_axis) \<and>
      within_bounds (SetLabelFactor (1 / 20) example_axis)"
    by blast
  with w vals show ?thesis by simp
qed

end
